theory Spec2Isabelle
  imports Complex_Main "HOL-Library.Char_ord" "HOL-Library.List_Lexorder"
begin

section \<open>Python values used by cloudwatch_query.py\<close>

text \<open>
  A Python \<open>str\<close> is a \<open>string\<close>: the list of its characters, a character being its code
  point (Isabelle's \<open>char\<close> covers the code points 0 to 255). A \<open>dict\<close> is an association
  list in insertion order whose keys are distinct; \<open>dict_set\<close> is \<open>d[k] = v\<close>, which
  overwrites the value of a key already present (the key keeps its place) and appends a
  new key at the end. \<open>dict_getitem\<close> is \<open>d[k]\<close>, which raises \<open>KeyError\<close> on a missing
  key.
\<close>

datatype error =
    ValueError
  | KeyError string
  | RuntimeError string
  | OverflowError
  | ClientError string

type_synonym 'v dict = "(string \<times> 'v) list"

fun dict_set :: "string \<Rightarrow> 'v \<Rightarrow> 'v dict \<Rightarrow> 'v dict" where
  "dict_set k v [] = [(k, v)]"
| "dict_set k v ((k', v') # d) =
     (if k' = k then (k, v) # d else (k', v') # dict_set k v d)"

definition dict_getitem :: "'v dict \<Rightarrow> string \<Rightarrow> error + 'v" where
  "dict_getitem d k = (case map_of d k of None \<Rightarrow> Inl (KeyError k) | Some v \<Rightarrow> Inr v)"

definition dict_get :: "'v dict \<Rightarrow> string \<Rightarrow> 'v \<Rightarrow> 'v" where
  "dict_get d k dflt = (case map_of d k of None \<Rightarrow> dflt | Some v \<Rightarrow> v)"

definition keys :: "'v dict \<Rightarrow> string list" where
  "keys d = map fst d"

definition wf_dict :: "'v dict \<Rightarrow> bool" where
  "wf_dict d = distinct (keys d)"

section \<open>Row Flattener: \<open>flatten\<close>\<close>

text \<open>
  A raw result is a list of rows, a raw row a list of cells, a cell a dict with the keys
  \<open>field\<close> and \<open>value\<close>. The dict comprehension \<open>{c["field"]: c["value"] for c in row}\<close>
  evaluates the key, then the value, and stores the pair, cell after cell.
\<close>

type_synonym cell = "string dict"
type_synonym row = "string dict"

fun flatten_row :: "cell list \<Rightarrow> row \<Rightarrow> error + row" where
  "flatten_row [] acc = Inr acc"
| "flatten_row (c # cs) acc =
     (case dict_getitem c ''field'' of
        Inl e \<Rightarrow> Inl e
      | Inr k \<Rightarrow>
          (case dict_getitem c ''value'' of
             Inl e \<Rightarrow> Inl e
           | Inr v \<Rightarrow> flatten_row cs (dict_set k v acc)))"

fun flatten :: "cell list list \<Rightarrow> error + row list" where
  "flatten [] = Inr []"
| "flatten (r # rs) =
     (case flatten_row r [] of
        Inl e \<Rightarrow> Inl e
      | Inr d \<Rightarrow> (case flatten rs of Inl e \<Rightarrow> Inl e | Inr ds \<Rightarrow> Inr (d # ds)))"

text \<open>A well-formed cell has both keys; \<open>cell_pair\<close> reads them.\<close>

definition wf_cell :: "cell \<Rightarrow> bool" where
  "wf_cell c = (map_of c ''field'' \<noteq> None \<and> map_of c ''value'' \<noteq> None)"

definition wf_raw :: "cell list list \<Rightarrow> bool" where
  "wf_raw results = list_all (list_all wf_cell) results"

definition cell_pair :: "cell \<Rightarrow> string \<times> string" where
  "cell_pair c = (dict_get c ''field'' [], dict_get c ''value'' [])"

section \<open>Dates and times: the part of \<open>datetime\<close> the program uses\<close>

text \<open>
  A naive \<open>datetime\<close> is a record of its fields. The calendar functions are those of
  Python's \<open>datetime\<close> module: the proleptic Gregorian ordinal of a date (day 1 is
  0001-01-01), its inverse, and the checks of the constructor, which raises \<open>ValueError\<close>
  on a field out of range.
\<close>

record datetime =
  year :: int
  month :: int
  day :: int
  hour :: int
  minute :: int
  second :: int
  microsecond :: int

definition MINYEAR :: int where "MINYEAR = 1"
definition MAXYEAR :: int where "MAXYEAR = 9999"
definition MAXORDINAL :: int where "MAXORDINAL = 3652059"

definition DAYS_IN_MONTH :: "int list" where
  "DAYS_IN_MONTH = [-1, 31, 28, 31, 30, 31, 30, 31, 31, 30, 31, 30, 31]"

definition DAYS_BEFORE_MONTH :: "int list" where
  "DAYS_BEFORE_MONTH = [-1, 0, 31, 59, 90, 120, 151, 181, 212, 243, 273, 304, 334]"

definition is_leap :: "int \<Rightarrow> bool" where
  "is_leap y = (y mod 4 = 0 \<and> (y mod 100 \<noteq> 0 \<or> y mod 400 = 0))"

definition days_before_year :: "int \<Rightarrow> int" where
  "days_before_year y = (y - 1) * 365 + (y - 1) div 4 - (y - 1) div 100 + (y - 1) div 400"

definition days_in_month :: "int \<Rightarrow> int \<Rightarrow> int" where
  "days_in_month y m = (if m = 2 \<and> is_leap y then 29 else DAYS_IN_MONTH ! nat m)"

definition days_before_month :: "int \<Rightarrow> int \<Rightarrow> int" where
  "days_before_month y m = DAYS_BEFORE_MONTH ! nat m + (if m > 2 \<and> is_leap y then 1 else 0)"

definition ymd2ord :: "int \<Rightarrow> int \<Rightarrow> int \<Rightarrow> int" where
  "ymd2ord y m d = days_before_year y + days_before_month y m + d"

definition ord2ymd :: "int \<Rightarrow> int \<times> int \<times> int" where
  "ord2ymd n0 =
     (let n = n0 - 1;
          n400 = n div 146097; n = n mod 146097;
          n100 = n div 36524; n = n mod 36524;
          n4 = n div 1461; n = n mod 1461;
          n1 = n div 365; n = n mod 365;
          y = n400 * 400 + 1 + n100 * 100 + n4 * 4 + n1
      in if n1 = 4 \<or> n100 = 4 then (y - 1, 12, 31)
         else
           let leapyear = (n1 = 3 \<and> (n4 \<noteq> 24 \<or> n100 = 3));
               m = (n + 50) div 32;
               preceding = DAYS_BEFORE_MONTH ! nat m + (if m > 2 \<and> leapyear then 1 else 0)
           in if preceding > n
              then (y, m - 1,
                    n - (preceding - (DAYS_IN_MONTH ! nat (m - 1)
                                       + (if m - 1 = 2 \<and> leapyear then 1 else 0))) + 1)
              else (y, m, n - preceding + 1))"

definition valid_datetime :: "datetime \<Rightarrow> bool" where
  "valid_datetime dt =
     (MINYEAR \<le> year dt \<and> year dt \<le> MAXYEAR \<and> 1 \<le> month dt \<and> month dt \<le> 12 \<and>
      1 \<le> day dt \<and> day dt \<le> days_in_month (year dt) (month dt) \<and>
      0 \<le> hour dt \<and> hour dt \<le> 23 \<and> 0 \<le> minute dt \<and> minute dt \<le> 59 \<and>
      0 \<le> second dt \<and> second dt \<le> 59 \<and>
      0 \<le> microsecond dt \<and> microsecond dt \<le> 999999)"

definition datetime_new ::
  "int \<Rightarrow> int \<Rightarrow> int \<Rightarrow> int \<Rightarrow> int \<Rightarrow> int \<Rightarrow> int \<Rightarrow> error + datetime" where
  "datetime_new y m d H M S us =
     (let dt = \<lparr>year = y, month = m, day = d, hour = H, minute = M, second = S,
                microsecond = us\<rparr>
      in if valid_datetime dt then Inr dt else Inl ValueError)"

definition toordinal :: "datetime \<Rightarrow> int" where
  "toordinal dt = ymd2ord (year dt) (month dt) (day dt)"

text \<open>
  A \<open>timedelta\<close> is kept normalised, as Python keeps it: days, seconds below 86400,
  microseconds below 1000000. \<open>dt + td\<close> adds through the ordinal and raises
  \<open>OverflowError\<close> when the day leaves \<open>1 .. MAXORDINAL\<close>.
\<close>

record timedelta =
  td_days :: int
  td_seconds :: int
  td_microseconds :: int

definition timedelta_hours :: "int \<Rightarrow> timedelta" where
  "timedelta_hours h =
     \<lparr>td_days = (h * 3600) div 86400, td_seconds = (h * 3600) mod 86400, td_microseconds = 0\<rparr>"

definition datetime_add :: "datetime \<Rightarrow> timedelta \<Rightarrow> error + datetime" where
  "datetime_add dt td =
     (let us = microsecond dt + td_microseconds td;
          secs = hour dt * 3600 + minute dt * 60 + second dt + td_seconds td + us div 1000000;
          days = toordinal dt + td_days td + secs div 86400;
          s = secs mod 86400
      in if 0 < days \<and> days \<le> MAXORDINAL
         then (case ord2ymd days of
                 (y, m, d) \<Rightarrow>
                   Inr \<lparr>year = y, month = m, day = d, hour = s div 3600,
                        minute = (s mod 3600) div 60, second = (s mod 3600) mod 60,
                        microsecond = us mod 1000000\<rparr>)
         else Inl OverflowError)"

text \<open>
  \<open>a >= b\<close> on naive datetimes compares the field tuples lexicographically.
\<close>

definition dt_key :: "datetime \<Rightarrow> int list" where
  "dt_key dt = [year dt, month dt, day dt, hour dt, minute dt, second dt, microsecond dt]"

definition dt_ge :: "datetime \<Rightarrow> datetime \<Rightarrow> bool" where
  "dt_ge a b = (dt_key a \<ge> dt_key b)"

text \<open>
  \<open>to_epoch\<close>: \<open>dt.replace(tzinfo=timezone.utc).timestamp()\<close> is the distance from
  1970-01-01T00:00:00Z (ordinal 719163) in seconds, microseconds as the fraction; \<open>int\<close>
  truncates towards zero.
\<close>

definition total_microseconds :: "datetime \<Rightarrow> int" where
  "total_microseconds dt =
     ((toordinal dt - 719163) * 86400 + hour dt * 3600 + minute dt * 60 + second dt) * 1000000
       + microsecond dt"

definition to_epoch :: "datetime \<Rightarrow> int" where
  "to_epoch dt =
     (let t = total_microseconds dt
      in if 0 \<le> t then t div 1000000 else - ((- t) div 1000000))"

section \<open>Time Parser: \<open>parse_cli_time\<close>\<close>

text \<open>
  \<open>datetime.strptime(s, "%Y-%m-%d %H:%M:%S")\<close> compiles the format to the regular
  expression
  \<^verbatim>\<open>(\d\d\d\d)-(1[0-2]|0[1-9]|[1-9])-(3[0-1]|[1-2]\d|0[1-9]|[1-9]| [1-9])\s+\<close>
  \<^verbatim>\<open>(2[0-3]|[0-1]\d|\d):([0-5]\d|\d):(6[0-1]|[0-5]\d|\d)\<close>
  and matches it at the start of \<open>s\<close>. A matcher returns every way to match a prefix, as
  pairs of the matched text and the rest, in the order a backtracking matcher tries them;
  the match found is the first of the whole sequence. \<open>strptime\<close> raises \<open>ValueError\<close>
  when there is no match, when input remains after the match, and when the fields are not
  a date and time (the constructor's check).
\<close>

type_synonym matcher = "string \<Rightarrow> (string \<times> string) list"

definition chr_in :: "char \<Rightarrow> char \<Rightarrow> char \<Rightarrow> bool" where
  "chr_in lo hi c = (lo \<le> c \<and> c \<le> hi)"

definition is_digit :: "char \<Rightarrow> bool" where
  "is_digit c = chr_in CHR ''0'' CHR ''9'' c"

definition is_space :: "char \<Rightarrow> bool" where
  "is_space c = ((of_char c :: nat) \<in> {9, 10, 11, 12, 13, 28, 29, 30, 31, 32, 133, 160})"

definition one :: "(char \<Rightarrow> bool) \<Rightarrow> matcher" where
  "one p s = (case s of c # r \<Rightarrow> if p c then [([c], r)] else [] | [] \<Rightarrow> [])"

definition two :: "(char \<Rightarrow> bool) \<Rightarrow> (char \<Rightarrow> bool) \<Rightarrow> matcher" where
  "two p q s =
     (case s of a # b # r \<Rightarrow> if p a \<and> q b then [([a, b], r)] else [] | _ \<Rightarrow> [])"

definition lit :: "char \<Rightarrow> string \<Rightarrow> string list" where
  "lit c s = (case s of x # r \<Rightarrow> if x = c then [r] else [] | [] \<Rightarrow> [])"

definition re_ws :: "string \<Rightarrow> string list" where
  "re_ws s = map (\<lambda>j. drop j s) (rev [1 ..< Suc (length (takeWhile is_space s))])"

definition re_Y :: matcher where
  "re_Y s =
     (case s of
        a # b # c # d # r \<Rightarrow>
          if is_digit a \<and> is_digit b \<and> is_digit c \<and> is_digit d then [([a, b, c, d], r)] else []
      | _ \<Rightarrow> [])"

definition re_m :: matcher where
  "re_m s = two ((=) CHR ''1'') (chr_in CHR ''0'' CHR ''2'') s
          @ two ((=) CHR ''0'') (chr_in CHR ''1'' CHR ''9'') s
          @ one (chr_in CHR ''1'' CHR ''9'') s"

definition re_d :: matcher where
  "re_d s = two ((=) CHR ''3'') (chr_in CHR ''0'' CHR ''1'') s
          @ two (chr_in CHR ''1'' CHR ''2'') is_digit s
          @ two ((=) CHR ''0'') (chr_in CHR ''1'' CHR ''9'') s
          @ one (chr_in CHR ''1'' CHR ''9'') s
          @ two ((=) CHR '' '') (chr_in CHR ''1'' CHR ''9'') s"

definition re_H :: matcher where
  "re_H s = two ((=) CHR ''2'') (chr_in CHR ''0'' CHR ''3'') s
          @ two (chr_in CHR ''0'' CHR ''1'') is_digit s
          @ one is_digit s"

definition re_M :: matcher where
  "re_M s = two (chr_in CHR ''0'' CHR ''5'') is_digit s @ one is_digit s"

definition re_S :: matcher where
  "re_S s = two ((=) CHR ''6'') (chr_in CHR ''0'' CHR ''1'') s
          @ two (chr_in CHR ''0'' CHR ''5'') is_digit s
          @ one is_digit s"

text \<open>\<open>int(text)\<close> on the text of a group: decimal digits, a leading blank skipped.\<close>

definition int_of_text :: "string \<Rightarrow> int" where
  "int_of_text txt =
     fold (\<lambda>c n. if is_digit c then 10 * n + (int (of_char c) - 48) else n) txt 0"

definition strptime_matches :: "string \<Rightarrow> ((string \<times> string \<times> string \<times> string \<times> string \<times> string) \<times> string) list" where
  "strptime_matches s =
     [((Y, m, d, H, M, S), r).
        (Y, s1) \<leftarrow> re_Y s, s2 \<leftarrow> lit CHR ''-'' s1,
        (m, s3) \<leftarrow> re_m s2, s4 \<leftarrow> lit CHR ''-'' s3,
        (d, s5) \<leftarrow> re_d s4, s6 \<leftarrow> re_ws s5,
        (H, s7) \<leftarrow> re_H s6, s8 \<leftarrow> lit CHR '':'' s7,
        (M, s9) \<leftarrow> re_M s8, s10 \<leftarrow> lit CHR '':'' s9,
        (S, r) \<leftarrow> re_S s10]"

definition strptime :: "string \<Rightarrow> error + datetime" where
  "strptime s =
     (case strptime_matches s of
        [] \<Rightarrow> Inl ValueError
      | ((Y, m, d, H, M, S), r) # _ \<Rightarrow>
          if r \<noteq> [] then Inl ValueError
          else datetime_new (int_of_text Y) (int_of_text m) (int_of_text d)
                 (int_of_text H) (int_of_text M) (int_of_text S) 0)"

definition parse_cli_time :: "string \<Rightarrow> string \<Rightarrow> error + datetime" where
  "parse_cli_time date_str time_str = strptime (date_str @ '' '' @ time_str)"

section \<open>JSON text: \<open>json.dumps\<close> and \<open>json.loads\<close>\<close>

text \<open>
  The values the program serialises are strings, lists and dicts with string keys.
  \<open>dumps\<close> is \<open>json.dumps(v, ensure_ascii=False, indent=2)\<close> at nesting level \<open>l\<close>: an
  empty container is \<open>[]\<close> or \<open>{}\<close>; otherwise every item stands on a line of its own,
  indented by two blanks per level, items separated by a comma, a key and its value by a
  colon and a blank. With \<open>ensure_ascii=False\<close> a string is written as it is between double
  quotes, except that the quote, the backslash and the control characters below 0x20 are
  escaped.
\<close>

datatype json = JStr string | JArr "json list" | JObj "(string \<times> json) list"

definition hex_digit :: "nat \<Rightarrow> char" where
  "hex_digit n = ''0123456789abcdef'' ! n"

definition escape_char :: "char \<Rightarrow> string" where
  "escape_char c =
     (if c = CHR 0x5C then [CHR 0x5C, CHR 0x5C]
      else if c = CHR 0x22 then [CHR 0x5C, CHR 0x22]
      else if c = CHR 0x08 then [CHR 0x5C, CHR ''b'']
      else if c = CHR 0x0C then [CHR 0x5C, CHR ''f'']
      else if c = CHR 0x0A then [CHR 0x5C, CHR ''n'']
      else if c = CHR 0x0D then [CHR 0x5C, CHR ''r'']
      else if c = CHR 0x09 then [CHR 0x5C, CHR ''t'']
      else if (of_char c :: nat) < 0x20
        then [CHR 0x5C, CHR ''u'', CHR ''0'', CHR ''0'',
              hex_digit (of_char c div 16), hex_digit (of_char c mod 16)]
      else [c])"

definition encode_basestring :: "string \<Rightarrow> string" where
  "encode_basestring s = CHR 0x22 # concat (map escape_char s) @ [CHR 0x22]"

definition newline_indent :: "nat \<Rightarrow> string" where
  "newline_indent l = CHR 0x0A # replicate (2 * l) CHR '' ''"

fun dumps :: "nat \<Rightarrow> json \<Rightarrow> string"
and dumps_list :: "nat \<Rightarrow> json list \<Rightarrow> string"
and dumps_dict :: "nat \<Rightarrow> (string \<times> json) list \<Rightarrow> string" where
  "dumps l (JStr s) = encode_basestring s"
| "dumps l (JArr []) = ''[]''"
| "dumps l (JArr (x # xs)) =
     ''['' @ newline_indent (Suc l) @ dumps_list (Suc l) (x # xs) @ newline_indent l @ '']''"
| "dumps l (JObj []) = ''{}''"
| "dumps l (JObj (kv # kvs)) =
     ''{'' @ newline_indent (Suc l) @ dumps_dict (Suc l) (kv # kvs) @ newline_indent l @ ''}''"
| "dumps_list l [] = []"
| "dumps_list l [x] = dumps l x"
| "dumps_list l (x # y # ys) =
     dumps l x @ '','' @ newline_indent l @ dumps_list l (y # ys)"
| "dumps_dict l [] = []"
| "dumps_dict l [(k, v)] = encode_basestring k @ '': '' @ dumps l v"
| "dumps_dict l ((k, v) # kv # kvs) =
     encode_basestring k @ '': '' @ dumps l v @ '','' @ newline_indent l
       @ dumps_dict l (kv # kvs)"

definition json_dumps :: "json \<Rightarrow> string" where
  "json_dumps v = dumps 0 v"











section \<open>The environment and the effects of the program\<close>

text \<open>
  What the program reads from outside is the environment: the clock, whether the
  \<open>tabulate\<close> module can be imported, the answers of the log service (\<open>start_query\<close>
  answers with a query id or raises \<open>ClientError\<close>; the \<open>k\<close>-th \<open>get_query_results\<close> of
  a poll answers with a status and result rows or raises \<open>ClientError\<close>), and
  \<open>Path.resolve\<close>. What the program does to the outside is recorded in the world: the
  lines printed, the calls made to the service, the arguments of \<open>time.sleep\<close>, and the
  files written. The world also holds the store of the row dicts: a row dict is an object,
  referred to by its address (its index in the store).
\<close>

datatype fetch_result = FetchFails string | Response string "cell list list"

record env =
  now :: datetime
  tabulate_available :: bool
  start_query_response :: "string \<Rightarrow> int \<Rightarrow> int \<Rightarrow> string + string"
  get_query_results_response :: "string \<Rightarrow> nat \<Rightarrow> fetch_result"
  resolve :: "string \<Rightarrow> string"

datatype call = StartQuery string int int string | GetQueryResults string

datatype file_content = JsonText string | CsvRecords "string list list"

type_synonym addr = nat

record world =
  console :: "string list"
  calls :: "call list"
  sleeps :: "rat list"
  store :: "row list"
  files :: "file_content dict"

definition print :: "string \<Rightarrow> world \<Rightarrow> world" where
  "print line w = w\<lparr>console := console w @ [line]\<rparr>"

definition LOG_GROUPS :: "string list" where
  "LOG_GROUPS = [''/aws/lambda/bm-qrec-api-redeban'',
                 ''/aws/lambda/bm-qrec-authorizer'',
                 ''/aws/lambda/bm-qrec-do-transaction'']"

text \<open>\<open>QUERY_STRING.strip()\<close>.\<close>

definition QUERY_STRING :: string where
  "QUERY_STRING =
     ''fields @timestamp, @logStream, @message, @entity.KeyAttributes.Name'' @ [CHR 0x0A]
     @ ''| sort @timestamp desc'' @ [CHR 0x0A] @ ''| limit 10000''"

section \<open>Query Client: \<open>start_query\<close>\<close>

definition start_query :: "env \<Rightarrow> string \<Rightarrow> int \<Rightarrow> int \<Rightarrow> world \<Rightarrow> (error + string) \<times> world" where
  "start_query e log_group start_ts end_ts w =
     (let w1 = w\<lparr>calls := calls w @ [StartQuery log_group start_ts end_ts QUERY_STRING]\<rparr>
      in case start_query_response e log_group start_ts end_ts of
           Inl msg \<Rightarrow> (Inl (ClientError msg), w1)
         | Inr query_id \<Rightarrow> (Inr query_id, w1))"

section \<open>Result Poller: \<open>wait_results\<close>\<close>

text \<open>
  The loop has no bound: it is a partial function, \<open>None\<close> when the service never
  answers with a terminal status. \<open>k\<close> counts the fetches of this poll.
\<close>

definition terminated_message :: "string \<Rightarrow> string \<Rightarrow> string" where
  "terminated_message query_id status =
     ''Consulta '' @ query_id @ '' termin'' @ [CHR 0xF3] @ '' con estado '' @ status"

partial_function (option) wait_results_from ::
  "env \<Rightarrow> string \<Rightarrow> rat \<Rightarrow> nat \<Rightarrow> world \<Rightarrow> ((error + cell list list) \<times> world) option" where
  "wait_results_from e query_id poll_interval k w =
     (case get_query_results_response e query_id k of
        FetchFails msg \<Rightarrow>
          Some (Inl (ClientError msg), w\<lparr>calls := calls w @ [GetQueryResults query_id]\<rparr>)
      | Response status results \<Rightarrow>
          if status = ''Complete''
            then Some (Inr results, w\<lparr>calls := calls w @ [GetQueryResults query_id]\<rparr>)
          else if status \<in> {''Cancelled'', ''Failed'', ''Timeout''}
            then Some (Inl (RuntimeError (terminated_message query_id status)),
                       w\<lparr>calls := calls w @ [GetQueryResults query_id]\<rparr>)
          else wait_results_from e query_id poll_interval (Suc k)
                 (w\<lparr>calls := calls w @ [GetQueryResults query_id],
                    sleeps := sleeps w @ [poll_interval]\<rparr>))"

declare wait_results_from.simps [code]

definition wait_results ::
  "env \<Rightarrow> string \<Rightarrow> rat \<Rightarrow> world \<Rightarrow> ((error + cell list list) \<times> world) option" where
  "wait_results e query_id poll_interval w = wait_results_from e query_id poll_interval 0 w"

section \<open>Reporter: \<open>pretty_print\<close>\<close>

text \<open>
  A row as a JSON value. With \<open>tabulate\<close> importable the body of the \<open>try\<close> does nothing
  (the call that printed the table is commented out); the JSON text is printed only in
  the \<open>except ImportError\<close> branch.
\<close>

definition row_json :: "row \<Rightarrow> json" where
  "row_json r = JObj (map (\<lambda>(k, v). (k, JStr v)) r)"

definition pretty_print :: "env \<Rightarrow> row list \<Rightarrow> world \<Rightarrow> world" where
  "pretty_print e rows w =
     (if rows = [] then print ''No se encontraron eventos.'' w
      else if tabulate_available e then w
      else print (json_dumps (JArr (map row_json rows))) w)"

section \<open>Persister: \<open>save_results\<close>\<close>

text \<open>
  \<open>Path(p).suffix\<close>: the name is the last component of the path (components are
  separated by \<open>/\<close>; empty components and \<open>.\<close> are dropped); the suffix starts at the last
  dot of the name, unless that dot is the first or the last character of the name.
  \<open>lower\<close> is \<open>str.lower\<close>.
\<close>

fun split_on :: "char \<Rightarrow> string \<Rightarrow> string list" where
  "split_on sep [] = [[]]"
| "split_on sep (c # cs) =
     (if c = sep then [] # split_on sep cs
      else (case split_on sep cs of p # ps \<Rightarrow> (c # p) # ps | [] \<Rightarrow> [[c]]))"

definition path_name :: "string \<Rightarrow> string" where
  "path_name p =
     (case rev (filter (\<lambda>c. c \<noteq> [] \<and> c \<noteq> ''.'') (split_on CHR ''/'' p)) of
        [] \<Rightarrow> []
      | n # _ \<Rightarrow> n)"

definition path_suffix :: "string \<Rightarrow> string" where
  "path_suffix p =
     (let name = path_name p;
          after_dot = length (takeWhile (\<lambda>c. c \<noteq> CHR ''.'') (rev name))
      in if CHR ''.'' \<in> set name \<and> 0 < after_dot \<and> Suc after_dot < length name
         then drop (length name - Suc after_dot) name
         else [])"

definition lower_char :: "char \<Rightarrow> char" where
  "lower_char c =
     (let n = (of_char c :: nat)
      in if (65 \<le> n \<and> n \<le> 90) \<or> (192 \<le> n \<and> n \<le> 222 \<and> n \<noteq> 215)
         then char_of (n + 32) else c)"

definition lower :: "string \<Rightarrow> string" where
  "lower s = map lower_char s"

text \<open>
  The Aggregated Result Set \<open>Dict[str, List[dict]]\<close> maps a log group to the list of
  the addresses of its row dicts. The CSV branch copies every row (\<open>r.copy()\<close> allocates a
  new dict with the same items), sets \<open>log_group\<close> in the copy and appends the copy to
  \<open>all_rows\<close>. The header is \<open>sorted\<close> of the set of all keys of the rows of \<open>all_rows\<close>;
  \<open>DictWriter\<close> writes, for each row, the value of each column, \<open>''\<close> for a column the row
  does not have. A CSV file is kept as the list of its records, the header first.
\<close>

type_synonym dataset = "addr list dict"

fun copy_rows :: "string \<Rightarrow> addr list \<Rightarrow> row list \<times> addr list \<Rightarrow> row list \<times> addr list" where
  "copy_rows lg [] (h, all_rows) = (h, all_rows)"
| "copy_rows lg (r # rs) (h, all_rows) =
     (let a = length h;
          h1 = h @ [h ! r];
          h2 = h1[a := dict_set ''log_group'' lg (h1 ! a)]
      in copy_rows lg rs (h2, all_rows @ [a]))"

fun collect_rows :: "dataset \<Rightarrow> row list \<times> addr list \<Rightarrow> row list \<times> addr list" where
  "collect_rows [] acc = acc"
| "collect_rows ((lg, rows) # d) acc = collect_rows d (copy_rows lg rows acc)"

definition fieldnames_of :: "row list \<Rightarrow> string list" where
  "fieldnames_of rows = sorted_list_of_set (set (concat (map keys rows)))"

definition csv_record :: "string list \<Rightarrow> row \<Rightarrow> string list" where
  "csv_record fieldnames r = map (\<lambda>k. dict_get r k []) fieldnames"

definition data_json :: "row list \<Rightarrow> dataset \<Rightarrow> json" where
  "data_json h d = JObj (map (\<lambda>(lg, rows). (lg, JArr (map (\<lambda>a. row_json (h ! a)) rows))) d)"

definition save_results :: "env \<Rightarrow> dataset \<Rightarrow> string \<Rightarrow> world \<Rightarrow> world" where
  "save_results e d file_path w =
     (let suffix = lower (path_suffix file_path)
      in if suffix = ''.json'' then
           print (''Resultados guardados en '' @ resolve e file_path @ '' (JSON).'')
             (w\<lparr>files := dict_set file_path (JsonText (json_dumps (data_json (store w) d)))
                            (files w)\<rparr>)
         else if suffix = ''.csv'' then
           (case collect_rows d (store w, []) of
              (h, all_rows) \<Rightarrow>
                if all_rows = [] then print ''No hay datos para guardar en CSV.'' (w\<lparr>store := h\<rparr>)
                else
                  let rows = map (\<lambda>a. h ! a) all_rows;
                      fieldnames = fieldnames_of rows
                  in print (''Resultados guardados en '' @ resolve e file_path @ '' (CSV).'')
                       (w\<lparr>store := h,
                          files := dict_set file_path
                                     (CsvRecords (fieldnames # map (csv_record fieldnames) rows))
                                     (files w)\<rparr>))
         else print (''Extensi'' @ [CHR 0xF3] @ ''n '' @ suffix @ '' no soportada. Usa .json o .csv'') w)"

text \<open>
  For stating what is written: the records of a dataset are its (log group, row address)
  pairs in the order of the groups and of the rows of each group. A dataset is well formed
  in a store when its group names are distinct, every address it holds is an address of
  the store, and the dict at each address has distinct keys.
\<close>

definition records_of :: "dataset \<Rightarrow> (string \<times> addr) list" where
  "records_of d = concat (map (\<lambda>(lg, rows). map (Pair lg) rows) d)"

definition refs_ok :: "row list \<Rightarrow> dataset \<Rightarrow> bool" where
  "refs_ok h d = list_all (\<lambda>(lg, a). a < length h) (records_of d)"


section \<open>Orchestrator: \<open>main\<close>\<close>

record args =
  fecha_ini :: string
  hora_ini :: string
  fecha_fin :: "string option"
  hora_fin :: "string option"
  out :: "string option"

datatype outcome = Returned | Exited int | Raised error

text \<open>\<open>if x\<close> on an optional argument: absent and the empty string are false.\<close>

definition truthy :: "string option \<Rightarrow> bool" where
  "truthy x = (case x of None \<Rightarrow> False | Some s \<Rightarrow> s \<noteq> [])"

definition arg_text :: "string option \<Rightarrow> string" where
  "arg_text x = (case x of None \<Rightarrow> [] | Some s \<Rightarrow> s)"

text \<open>The body of the first \<open>try\<close> of \<open>main\<close>: the start and the end of the window.\<close>

definition window :: "env \<Rightarrow> args \<Rightarrow> error + datetime \<times> datetime" where
  "window e a =
     (case parse_cli_time (fecha_ini a) (hora_ini a) of
        Inl err \<Rightarrow> Inl err
      | Inr dt \<Rightarrow>
          (case datetime_add dt (timedelta_hours 5) of
             Inl err \<Rightarrow> Inl err
           | Inr start_dt \<Rightarrow>
               if truthy (fecha_fin a) \<and> truthy (hora_fin a) then
                 (case parse_cli_time (arg_text (fecha_fin a)) (arg_text (hora_fin a)) of
                    Inl err \<Rightarrow> Inl err
                  | Inr dt2 \<Rightarrow>
                      (case datetime_add dt2 (timedelta_hours 5) of
                         Inl err \<Rightarrow> Inl err
                       | Inr end_dt \<Rightarrow> Inr (start_dt, end_dt)))
               else Inr (start_dt, now e)))"

text \<open>\<open>str(dt)\<close> of a datetime, and \<open>str(e)\<close> of a \<open>ClientError\<close>.\<close>

fun dec_digits :: "nat \<Rightarrow> nat \<Rightarrow> string" where
  "dec_digits 0 n = []"
| "dec_digits (Suc w) n = dec_digits w (n div 10) @ [char_of (48 + n mod 10)]"

definition str_datetime :: "datetime \<Rightarrow> string" where
  "str_datetime dt =
     dec_digits 4 (nat (year dt)) @ ''-'' @ dec_digits 2 (nat (month dt)) @ ''-''
     @ dec_digits 2 (nat (day dt)) @ '' '' @ dec_digits 2 (nat (hour dt)) @ '':''
     @ dec_digits 2 (nat (minute dt)) @ '':'' @ dec_digits 2 (nat (second dt))
     @ (if microsecond dt = 0 then [] else ''.'' @ dec_digits 6 (nat (microsecond dt)))"

definition alloc_rows :: "row list \<Rightarrow> world \<Rightarrow> addr list \<times> world" where
  "alloc_rows rows w =
     ([length (store w) ..< length (store w) + length rows], w\<lparr>store := store w @ rows\<rparr>)"

text \<open>
  One turn of the loop over \<open>LOG_GROUPS\<close>: the result is the dataset and the world after
  the turn, or the exception that leaves the loop (only \<open>ClientError\<close> is caught), or
  \<open>None\<close> when the poll never ends.
\<close>

definition query_group ::
  "env \<Rightarrow> int \<Rightarrow> int \<Rightarrow> string \<Rightarrow> dataset \<times> world \<Rightarrow> ((error + dataset) \<times> world) option" where
  "query_group e start_ts end_ts lg st =
     (case st of (salida_total, w0) \<Rightarrow>
        let w1 = print (''===> Log group: '' @ lg) w0
        in case start_query e lg start_ts end_ts w1 of
             (Inl (ClientError msg), w2) \<Rightarrow>
               Some (Inr salida_total, print [] (print (''Error consultando '' @ lg @ '': '' @ msg) w2))
           | (Inl err, w2) \<Rightarrow> Some (Inl err, w2)
           | (Inr qid, w2) \<Rightarrow>
               (case wait_results e qid 1 w2 of
                  None \<Rightarrow> None
                | Some (Inl (ClientError msg), w3) \<Rightarrow>
                    Some (Inr salida_total,
                          print [] (print (''Error consultando '' @ lg @ '': '' @ msg) w3))
                | Some (Inl err, w3) \<Rightarrow> Some (Inl err, w3)
                | Some (Inr results, w3) \<Rightarrow>
                    (case flatten results of
                       Inl (ClientError msg) \<Rightarrow>
                         Some (Inr salida_total,
                               print [] (print (''Error consultando '' @ lg @ '': '' @ msg) w3))
                     | Inl err \<Rightarrow> Some (Inl err, w3)
                     | Inr rows \<Rightarrow>
                         (case alloc_rows rows w3 of
                            (refs, w4) \<Rightarrow>
                              Some (Inr (dict_set lg refs salida_total),
                                    print [] (pretty_print e rows w4))))))"

fun query_groups ::
  "env \<Rightarrow> int \<Rightarrow> int \<Rightarrow> string list \<Rightarrow> dataset \<times> world \<Rightarrow> ((error + dataset) \<times> world) option" where
  "query_groups e start_ts end_ts [] (salida_total, w) = Some (Inr salida_total, w)"
| "query_groups e start_ts end_ts (lg # lgs) (salida_total, w) =
     (case query_group e start_ts end_ts lg (salida_total, w) of
        None \<Rightarrow> None
      | Some (Inl err, w') \<Rightarrow> Some (Inl err, w')
      | Some (Inr salida_total', w') \<Rightarrow> query_groups e start_ts end_ts lgs (salida_total', w'))"

definition main :: "env \<Rightarrow> args \<Rightarrow> world \<Rightarrow> (outcome \<times> world) option" where
  "main e a w =
     (case window e a of
        Inl ValueError \<Rightarrow>
          Some (Exited 1, print ''Error en el formato de fecha/hora. Usa YYYY-MM-DD HH:MM'' w)
      | Inl err \<Rightarrow> Some (Raised err, w)
      | Inr (start_dt, end_dt) \<Rightarrow>
          if dt_ge start_dt end_dt
            then Some (Exited 1, print ''La fecha de inicio debe ser anterior a la final.'' w)
          else
            let start_ts = to_epoch start_dt;
                end_ts = to_epoch end_dt;
                w1 = print (''Ejecutando consulta entre '' @ str_datetime start_dt @ '' y ''
                            @ str_datetime end_dt @ ''...'' @ [CHR 0x0A]) w
            in case query_groups e start_ts end_ts LOG_GROUPS ([], w1) of
                 None \<Rightarrow> None
               | Some (Inl err, w2) \<Rightarrow> Some (Raised err, w2)
               | Some (Inr salida_total, w2) \<Rightarrow>
                   if truthy (out a)
                     then Some (Returned, save_results e salida_total (arg_text (out a)) w2)
                   else Some (Returned, w2))"

section \<open>A sample run\<close>

text \<open>
  A concrete environment for evaluating the program: \<open>tabulate\<close> is installed; the service
  accepts every query; the query of the first log group is running for two fetches and then
  complete with one row of two fields, every other query is running for one fetch and then
  failed.
\<close>

definition empty_world :: world where
  "empty_world = \<lparr>console = [], calls = [], sleeps = [], store = [], files = []\<rparr>"

definition sample_results :: "cell list list" where
  "sample_results = [[[(''field'', ''a''), (''value'', ''1'')], [(''field'', ''b''), (''value'', ''2'')]]]"

definition sample_env :: env where
  "sample_env =
     \<lparr>now = \<lparr>year = 2025, month = 5, day = 9, hour = 0, minute = 0, second = 0,
              microsecond = 5\<rparr>,
      tabulate_available = True,
      start_query_response = (\<lambda>lg s t. Inr (''q:'' @ lg)),
      get_query_results_response =
        (\<lambda>q k. if q = ''q:/aws/lambda/bm-qrec-api-redeban''
               then (if k < 2 then Response ''Running'' [] else Response ''Complete'' sample_results)
               else (if k < 1 then Response ''Running'' [] else Response ''Failed'' [])),
      resolve = (\<lambda>p. ''/work/'' @ p)\<rparr>"

definition sample_args :: args where
  "sample_args =
     \<lparr>fecha_ini = ''2025-05-08'', hora_ini = ''07:14:00'', fecha_fin = None, hora_fin = None,
      out = Some ''out.json''\<rparr>"

text \<open>
  A dataset of two groups with one row each, the rows having different fields: group
  \<open>A\<close> with the row \<open>{"x": "1"}\<close> and group \<open>B\<close> with the row \<open>{"y": "2"}\<close>.
\<close>

definition sample_world :: world where
  "sample_world = empty_world\<lparr>store := [[(''x'', ''1'')], [(''y'', ''2'')]]\<rparr>"

definition sample_dataset :: dataset where
  "sample_dataset = [(''A'', [0]), (''B'', [1])]"



section \<open>Properties of dicts\<close>

lemma keys_dict_set:
  "keys (dict_set k v d) = (if k \<in> set (keys d) then keys d else keys d @ [k])"
  unfolding keys_def by (induction d) force+

lemma wf_dict_set: "wf_dict d \<Longrightarrow> wf_dict (dict_set k v d)"
  by (simp add: wf_dict_def keys_dict_set)

lemma map_of_dict_set: "map_of (dict_set k v d) = (map_of d)(k \<mapsto> v)"
  by (induction d) (auto simp: fun_eq_iff)

section \<open>Properties of the Row Flattener\<close>

lemma flatten_row_wf:
  "list_all wf_cell cs \<Longrightarrow>
   \<exists>r. flatten_row cs acc = Inr r \<and> (wf_dict acc \<longrightarrow> wf_dict r) \<and>
       map_of r = map_of acc ++ map_of (rev (map cell_pair cs))"
proof (induction cs arbitrary: acc)
  case Nil
  then show ?case by simp
next
  case (Cons c cs)
  obtain k v where kv: "map_of c ''field'' = Some k" "map_of c ''value'' = Some v"
    using Cons.prems by (auto simp: wf_cell_def)
  have cp: "cell_pair c = (k, v)" using kv by (simp add: cell_pair_def dict_get_def)
  from Cons.prems have "list_all wf_cell cs" by simp
  from Cons.IH[OF this, of "dict_set k v acc"]
  obtain r where r: "flatten_row cs (dict_set k v acc) = Inr r"
     "wf_dict (dict_set k v acc) \<longrightarrow> wf_dict r"
     "map_of r = map_of (dict_set k v acc) ++ map_of (rev (map cell_pair cs))" by blast
  have "flatten_row (c # cs) acc = Inr r" using kv r(1) by (simp add: dict_getitem_def)
  moreover have "wf_dict acc \<longrightarrow> wf_dict r" using r(2) wf_dict_set[of acc k v] by simp
  moreover have "map_of r = map_of acc ++ map_of (rev (map cell_pair (c # cs)))"
  proof (rule ext)
    fix x show "map_of r x = (map_of acc ++ map_of (rev (map cell_pair (c # cs)))) x"
      unfolding r(3) map_of_dict_set by (simp add: cp map_add_def split: option.splits)
  qed
  ultimately show ?case by (intro exI[of _ r] conjI)
qed

text \<open>
  C4 (as stated, refuted): the Row Flattener is claimed not to collapse a row that holds
  the same field name twice. A row of two cells, both for the field \<open>a\<close>, is flattened to
  a mapping with the single entry \<open>a \<mapsto> 2\<close>: the dict comprehension keeps one value per key.
\<close>

theorem flatten_collapses_duplicate_field:
  "flatten [[[(''field'', ''a''), (''value'', ''1'')], [(''field'', ''a''), (''value'', ''2'')]]]
     = Inr [[(''a'', ''2'')]]"
  by (simp add: dict_getitem_def)

text \<open>
  C4 (amended): for every raw result whose cells all have the keys \<open>field\<close> and
  \<open>value\<close>, the Row Flattener returns one mapping per input row, in row order; the mapping
  of a row has distinct keys and sends each field name of the row to the value of the last
  cell of the row with that name (a name occurring several times is collapsed to one entry).
\<close>

theorem flatten_one_mapping_per_row:
  "wf_raw results \<Longrightarrow>
   \<exists>rows. flatten results = Inr rows \<and> length rows = length results \<and>
     (\<forall>i < length results. wf_dict (rows ! i) \<and>
         map_of (rows ! i) = map_of (rev (map cell_pair (results ! i))))"
proof (induction results)
  case Nil
  then show ?case by simp
next
  case (Cons r rs)
  have "list_all wf_cell r" using Cons.prems by (simp add: wf_raw_def)
  from flatten_row_wf[OF this, of "[]"]
  obtain d where d: "flatten_row r [] = Inr d" "wf_dict d"
     "map_of d = map_of (rev (map cell_pair r))" by (auto simp: wf_dict_def keys_def)
  have "wf_raw rs" using Cons.prems by (simp add: wf_raw_def)
  from Cons.IH[OF this] obtain ds where ds: "flatten rs = Inr ds" "length ds = length rs"
     "\<forall>i < length rs. wf_dict (ds ! i) \<and> map_of (ds ! i) = map_of (rev (map cell_pair (rs ! i)))"
    by blast
  have 1: "flatten (r # rs) = Inr (d # ds)" using d(1) ds(1) by simp
  have 2: "\<forall>i < length (r # rs). wf_dict ((d # ds) ! i) \<and>
      map_of ((d # ds) ! i) = map_of (rev (map cell_pair ((r # rs) ! i)))"
  proof (intro allI impI)
    fix i assume "i < length (r # rs)"
    then show "wf_dict ((d # ds) ! i) \<and>
      map_of ((d # ds) ! i) = map_of (rev (map cell_pair ((r # rs) ! i)))"
      using d(2,3) ds(3) by (cases i) simp_all
  qed
  show ?case using 1 2 ds(2) by simp
qed

theorem flatten_one_mapping_per_row_witness:
  "wf_raw [[[(''field'', ''a''), (''value'', ''1'')], [(''field'', ''b''), (''value'', ''2'')]]] \<and>
   flatten [[[(''field'', ''a''), (''value'', ''1'')], [(''field'', ''b''), (''value'', ''2'')]]]
     = Inr [[(''a'', ''1''), (''b'', ''2'')]]"
  using flatten_one_mapping_per_row
    [of "[[[(''field'', ''a''), (''value'', ''1'')], [(''field'', ''b''), (''value'', ''2'')]]]"]
  by (simp add: wf_raw_def wf_cell_def dict_getitem_def)

section \<open>Properties of the calendar functions\<close>






lemma month_first: "DAYS_BEFORE_MONTH ! nat 1 = 0"
  by (simp add: DAYS_BEFORE_MONTH_def)




section \<open>Properties of the JSON writer and reader\<close>






























section \<open>Properties of the Time Parser and of the start instant\<close>











lemma one_split: "(t, r) \<in> set (one p s) \<Longrightarrow> s = t @ r"
  by (auto simp: one_def split: list.splits if_splits)

lemma two_split: "(t, r) \<in> set (two p q s) \<Longrightarrow> s = t @ r"
  by (auto simp: two_def split: list.splits if_splits)

lemma lit_split: "r \<in> set (lit c s) \<Longrightarrow> s = c # r"
  by (auto simp: lit_def split: list.splits if_splits)

lemma re_ws_split: "r \<in> set (re_ws s) \<Longrightarrow> \<exists>ws. s = ws @ r"
proof -
  assume "r \<in> set (re_ws s)"
  then obtain j where "r = drop j s" by (auto simp: re_ws_def)
  then have "s = take j s @ r" by simp
  then show ?thesis ..
qed

lemma re_Y_split: "(t, r) \<in> set (re_Y s) \<Longrightarrow> s = t @ r"
  by (auto simp: re_Y_def split: list.splits if_splits)

lemma re_m_split: "(t, r) \<in> set (re_m s) \<Longrightarrow> s = t @ r"
  by (auto simp: re_m_def dest: one_split two_split)

lemma re_d_split: "(t, r) \<in> set (re_d s) \<Longrightarrow> s = t @ r"
  by (auto simp: re_d_def dest: one_split two_split)

lemma re_H_split: "(t, r) \<in> set (re_H s) \<Longrightarrow> s = t @ r"
  by (auto simp: re_H_def dest: one_split two_split)

lemma re_M_split: "(t, r) \<in> set (re_M s) \<Longrightarrow> s = t @ r"
  by (auto simp: re_M_def dest: one_split two_split)

lemma re_S_split: "(t, r) \<in> set (re_S s) \<Longrightarrow> s = t @ r"
  by (auto simp: re_S_def dest: one_split two_split)

lemma strptime_matches_shape:
  assumes "((Y, m, d, H, M, S), r) \<in> set (strptime_matches s)"
  shows "\<exists>ws. s = Y @ CHR ''-'' # m @ CHR ''-'' # d @ ws @ H @ CHR '':'' # M @ CHR '':'' # S @ r"
proof -
  from assms obtain s1 s2 s3 s4 s5 s6 s7 s8 s9 s10 where
    m: "(Y, s1) \<in> set (re_Y s)" "s2 \<in> set (lit CHR ''-'' s1)"
       "(m, s3) \<in> set (re_m s2)" "s4 \<in> set (lit CHR ''-'' s3)"
       "(d, s5) \<in> set (re_d s4)" "s6 \<in> set (re_ws s5)"
       "(H, s7) \<in> set (re_H s6)" "s8 \<in> set (lit CHR '':'' s7)"
       "(M, s9) \<in> set (re_M s8)" "s10 \<in> set (lit CHR '':'' s9)"
       "(S, r) \<in> set (re_S s10)"
    unfolding strptime_matches_def by auto
  obtain ws where ws: "s5 = ws @ s6" using re_ws_split[OF m(6)] by blast
  show ?thesis
    using re_Y_split[OF m(1)] lit_split[OF m(2)] re_m_split[OF m(3)] lit_split[OF m(4)]
      re_d_split[OF m(5)] ws re_H_split[OF m(7)] lit_split[OF m(8)] re_M_split[OF m(9)]
      lit_split[OF m(10)] re_S_split[OF m(11)]
    by (intro exI[of _ ws]) simp
qed

lemma strptime_needs_two_colons:
  assumes "strptime s = Inr dt"
  shows "2 \<le> count_list s CHR '':''"
proof -
  from assms obtain Y m d H M S rest where
    hd: "strptime_matches s = ((Y, m, d, H, M, S), []) # rest"
    unfolding strptime_def by (auto split: list.splits prod.splits if_splits)
  then have "((Y, m, d, H, M, S), []) \<in> set (strptime_matches s)" by simp
  from strptime_matches_shape[OF this] obtain ws where
    "s = Y @ CHR ''-'' # m @ CHR ''-'' # d @ ws @ H @ CHR '':'' # M @ CHR '':'' # S @ []" by blast
  then have "count_list s CHR '':'' = count_list Y CHR '':'' + count_list m CHR '':''
      + count_list d CHR '':'' + count_list ws CHR '':'' + count_list H CHR '':''
      + count_list M CHR '':'' + count_list S CHR '':'' + 2"
    by simp
  then show ?thesis by simp
qed

lemma strptime_error: "strptime s = Inl err \<Longrightarrow> err = ValueError"
  unfolding strptime_def datetime_new_def
  by (auto simp: Let_def split: list.splits prod.splits if_splits)

text \<open>
  C2: the Time Parser is claimed to accept a time in the form HH:MM. The format of
  \<open>parse_cli_time\<close> demands the seconds: whenever the date and the time together hold
  fewer than two colons, as with a date YYYY-MM-DD and a time HH:MM, \<open>parse_cli_time\<close>
  raises \<open>ValueError\<close>. The invocation of the usage text, date 2025-05-08 and time 07:14,
  makes \<open>main\<close> exit with status 1.
\<close>

theorem parse_cli_time_rejects_missing_seconds:
  assumes "count_list (date_str @ '' '' @ time_str) CHR '':'' < 2"
  shows "parse_cli_time date_str time_str = Inl ValueError"
proof (cases "parse_cli_time date_str time_str")
  case (Inl err)
  then show ?thesis using strptime_error[of "date_str @ '' '' @ time_str" err]
    by (simp add: parse_cli_time_def)
next
  case (Inr dt)
  then have "2 \<le> count_list (date_str @ '' '' @ time_str) CHR '':''"
    using strptime_needs_two_colons[of "date_str @ '' '' @ time_str" dt]
    by (simp add: parse_cli_time_def)
  with assms show ?thesis by simp
qed

theorem parse_cli_time_rejects_missing_seconds_witness:
  "count_list (''2025-05-08'' @ '' '' @ ''07:14'') CHR '':'' < 2
   \<and> parse_cli_time ''2025-05-08'' ''07:14'' = Inl ValueError
   \<and> main sample_env (sample_args\<lparr>hora_ini := ''07:14''\<rparr>) empty_world
       = Some (Exited 1, print ''Error en el formato de fecha/hora. Usa YYYY-MM-DD HH:MM'' empty_world)"
proof -
  have h: "count_list (''2025-05-08'' @ '' '' @ ''07:14'') CHR '':'' < 2" by simp
  from parse_cli_time_rejects_missing_seconds[OF h]
  show ?thesis using h by (simp add: main_def window_def sample_args_def)
qed

section \<open>Properties of the Result Poller\<close>

text \<open>
  C7: when the fetches of a query answer Running, Running, Complete with rows \<open>R\<close>, the
  Result Poller fetches three times, sleeps exactly twice, one poll interval each, and
  returns exactly \<open>R\<close>; when they answer Running, Failed, it sleeps once and raises the
  error whose message names the query and the state Failed.
\<close>

theorem wait_results_polling:
  "(get_query_results_response e q 0 = Response ''Running'' r0 \<longrightarrow>
    get_query_results_response e q 1 = Response ''Running'' r1 \<longrightarrow>
    get_query_results_response e q 2 = Response ''Complete'' R \<longrightarrow>
      wait_results e q p w =
        Some (Inr R, w\<lparr>calls := calls w @ [GetQueryResults q, GetQueryResults q, GetQueryResults q],
                        sleeps := sleeps w @ [p, p]\<rparr>))
   \<and>
   (get_query_results_response e q 0 = Response ''Running'' r0 \<longrightarrow>
    get_query_results_response e q 1 = Response ''Failed'' r1 \<longrightarrow>
      wait_results e q p w =
        Some (Inl (RuntimeError (''Consulta '' @ q @ '' termin'' @ [CHR 0xF3] @ '' con estado Failed'')),
              w\<lparr>calls := calls w @ [GetQueryResults q, GetQueryResults q],
                sleeps := sleeps w @ [p]\<rparr>))"
proof (intro conjI impI)
  assume a: "get_query_results_response e q 0 = Response ''Running'' r0"
    "get_query_results_response e q 1 = Response ''Running'' r1"
    "get_query_results_response e q 2 = Response ''Complete'' R"
  have a1: "get_query_results_response e q (Suc 0) = Response ''Running'' r1" using a(2) by simp
  have a2: "get_query_results_response e q (Suc (Suc 0)) = Response ''Complete'' R"
    using a(3) by (simp add: numeral_2_eq_2)
  have s2: "\<And>w'. wait_results_from e q p (Suc (Suc 0)) w'
      = Some (Inr R, w'\<lparr>calls := calls w' @ [GetQueryResults q]\<rparr>)"
    by (subst wait_results_from.simps) (simp add: a2)
  have s1: "\<And>w'. wait_results_from e q p (Suc 0) w'
      = Some (Inr R, w'\<lparr>calls := calls w' @ [GetQueryResults q, GetQueryResults q],
                        sleeps := sleeps w' @ [p]\<rparr>)"
    by (subst wait_results_from.simps) (simp add: a1 s2)
  show "wait_results e q p w =
        Some (Inr R, w\<lparr>calls := calls w @ [GetQueryResults q, GetQueryResults q, GetQueryResults q],
                        sleeps := sleeps w @ [p, p]\<rparr>)"
    unfolding wait_results_def by (subst wait_results_from.simps) (simp add: a(1) s1)
next
  assume a: "get_query_results_response e q 0 = Response ''Running'' r0"
    "get_query_results_response e q 1 = Response ''Failed'' r1"
  have a1: "get_query_results_response e q (Suc 0) = Response ''Failed'' r1" using a(2) by simp
  have s1: "\<And>w'. wait_results_from e q p (Suc 0) w'
      = Some (Inl (RuntimeError (terminated_message q ''Failed'')),
              w'\<lparr>calls := calls w' @ [GetQueryResults q]\<rparr>)"
    by (subst wait_results_from.simps) (simp add: a1)
  show "wait_results e q p w =
        Some (Inl (RuntimeError (''Consulta '' @ q @ '' termin'' @ [CHR 0xF3] @ '' con estado Failed'')),
              w\<lparr>calls := calls w @ [GetQueryResults q, GetQueryResults q],
                sleeps := sleeps w @ [p]\<rparr>)"
    unfolding wait_results_def
    by (subst wait_results_from.simps) (simp add: a(1) s1 terminated_message_def)
qed

theorem wait_results_polling_witness:
  "wait_results sample_env ''q:/aws/lambda/bm-qrec-api-redeban'' 1 empty_world
     = Some (Inr sample_results,
             empty_world\<lparr>calls := [GetQueryResults ''q:/aws/lambda/bm-qrec-api-redeban'',
                                   GetQueryResults ''q:/aws/lambda/bm-qrec-api-redeban'',
                                   GetQueryResults ''q:/aws/lambda/bm-qrec-api-redeban''],
                         sleeps := [1, 1]\<rparr>)
   \<and> wait_results sample_env ''q2'' 1 empty_world
     = Some (Inl (RuntimeError (''Consulta q2 termin'' @ [CHR 0xF3] @ '' con estado Failed'')),
             empty_world\<lparr>calls := [GetQueryResults ''q2'', GetQueryResults ''q2''],
                         sleeps := [1]\<rparr>)"
  using wait_results_polling[of sample_env "''q:/aws/lambda/bm-qrec-api-redeban''" "[]" "[]"
          sample_results 1 empty_world]
        wait_results_polling[of sample_env "''q2''" "[]" "[]" "[]" 1 empty_world]
  by (simp add: sample_env_def empty_world_def)

section \<open>Properties of the Reporter\<close>

text \<open>
  C3: the Reporter is claimed to print every non-empty sequence of rows. For an empty
  sequence \<open>pretty_print\<close> prints the notice that no events were found; for a non-empty
  sequence it prints the rows as indented JSON only when the \<open>tabulate\<close> module cannot be
  imported; when the module is installed it prints nothing: the world is unchanged.
\<close>

theorem pretty_print_silent_with_tabulate:
  "(rows = [] \<longrightarrow> pretty_print e rows w = print ''No se encontraron eventos.'' w)
   \<and> (rows \<noteq> [] \<longrightarrow> tabulate_available e \<longrightarrow> pretty_print e rows w = w)
   \<and> (rows \<noteq> [] \<longrightarrow> \<not> tabulate_available e \<longrightarrow>
        pretty_print e rows w = print (json_dumps (JArr (map row_json rows))) w)"
  by (simp add: pretty_print_def)

theorem pretty_print_silent_with_tabulate_witness:
  "pretty_print sample_env [[(''a'', ''1'')]] empty_world = empty_world
   \<and> console (pretty_print sample_env [] empty_world) = [''No se encontraron eventos.'']
   \<and> console (pretty_print (sample_env\<lparr>tabulate_available := False\<rparr>) [[(''a'', ''1'')]]
                 empty_world)
       = [''['' @ [CHR 0x0A] @ ''  {'' @ [CHR 0x0A] @ ''    '' @ [CHR 0x22] @ ''a'' @ [CHR 0x22]
          @ '': '' @ [CHR 0x22] @ ''1'' @ [CHR 0x22] @ [CHR 0x0A] @ ''  }'' @ [CHR 0x0A] @ '']'']"
  using pretty_print_silent_with_tabulate[of "[[(''a'', ''1'')]]" sample_env empty_world]
    pretty_print_silent_with_tabulate[of "[]" sample_env empty_world]
    pretty_print_silent_with_tabulate[of "[[(''a'', ''1'')]]"
       "sample_env\<lparr>tabulate_available := False\<rparr>" empty_world]
  by (simp add: sample_env_def empty_world_def print_def json_dumps_def row_json_def
        encode_basestring_def escape_char_def newline_indent_def numeral_2_eq_2)

section \<open>Properties of the Orchestrator\<close>



text \<open>
  C1: a poll that ends in Cancelled, Failed or Timeout is claimed to leave only that
  group out of the result. \<open>wait_results\<close> raises \<open>RuntimeError\<close>, which the handler of
  the loop (\<open>except ClientError\<close>) does not catch: when the query of the first log group
  ends so, \<open>main\<close> ends with that exception after the first fetch; no other group is
  queried and no file is written. In the sample run the first group completes with a row
  and the second fails: the run ends with the exception, the row of the first group is in
  the store and no file is written.
\<close>

theorem main_raises_on_terminated_query:
  assumes "window e a = Inr (start_dt, end_dt)" and "\<not> dt_ge start_dt end_dt"
    and "start_query_response e (hd LOG_GROUPS) (to_epoch start_dt) (to_epoch end_dt) = Inr q"
    and "get_query_results_response e q 0 = Response st r"
    and "st \<in> {''Cancelled'', ''Failed'', ''Timeout''}"
  shows "\<exists>w'. main e a w = Some (Raised (RuntimeError (terminated_message q st)), w')
           \<and> files w' = files w
           \<and> calls w' = calls w @ [StartQuery (hd LOG_GROUPS) (to_epoch start_dt) (to_epoch end_dt)
                                     QUERY_STRING, GetQueryResults q]"
proof -
  have st: "st \<noteq> ''Complete''" using assms(5) by auto
  have wr: "\<And>w1. wait_results e q 1 w1
     = Some (Inl (RuntimeError (terminated_message q st)), w1\<lparr>calls := calls w1 @ [GetQueryResults q]\<rparr>)"
    unfolding wait_results_def
    by (subst wait_results_from.simps) (use assms(4,5) st in simp)
  have sq: "start_query_response e ''/aws/lambda/bm-qrec-api-redeban'' (to_epoch start_dt) (to_epoch end_dt) = Inr q"
    using assms(3) by (simp add: LOG_GROUPS_def)
  show ?thesis
    using assms(1,2)
    by (simp add: main_def LOG_GROUPS_def query_group_def start_query_def sq wr print_def)
qed

theorem main_raises_on_terminated_query_witness:
  "(\<exists>w'. main (sample_env\<lparr>get_query_results_response := (\<lambda>q k. Response ''Failed'' [])\<rparr>)
            sample_args empty_world
          = Some (Raised (RuntimeError (''Consulta q:/aws/lambda/bm-qrec-api-redeban termin''
                                         @ [CHR 0xF3] @ '' con estado Failed'')), w')
        \<and> files w' = []
        \<and> calls w' = [StartQuery ''/aws/lambda/bm-qrec-api-redeban'' 1746706440 1746748800
                        QUERY_STRING,
                      GetQueryResults ''q:/aws/lambda/bm-qrec-api-redeban''])
   \<and> map_option (\<lambda>(r, w'). (r, files w', store w')) (main sample_env sample_args empty_world)
       = Some (Raised (RuntimeError (''Consulta q:/aws/lambda/bm-qrec-authorizer termin''
                                      @ [CHR 0xF3] @ '' con estado Failed'')),
               [], [[(''a'', ''1''), (''b'', ''2'')]])"
proof -
  let ?E = "sample_env\<lparr>get_query_results_response := (\<lambda>q k. Response ''Failed'' [])\<rparr>"
  let ?S = "\<lparr>year = 2025, month = 5, day = 8, hour = 12, minute = 14, second = 0, microsecond = 0\<rparr>"
  let ?T = "\<lparr>year = 2025, month = 5, day = 9, hour = 0, minute = 0, second = 0, microsecond = 5\<rparr>"
  have h1: "window ?E sample_args = Inr (?S, ?T)" by code_simp
  have h2: "\<not> dt_ge ?S ?T" by code_simp
  have t1: "to_epoch ?S = 1746706440" by code_simp
  have t2: "to_epoch ?T = 1746748800" by code_simp
  have h3: "start_query_response ?E (hd LOG_GROUPS) (to_epoch ?S) (to_epoch ?T)
              = Inr ''q:/aws/lambda/bm-qrec-api-redeban''"
    by (simp add: sample_env_def LOG_GROUPS_def)
  have h4: "get_query_results_response ?E ''q:/aws/lambda/bm-qrec-api-redeban'' 0 = Response ''Failed'' []"
    by simp
  have h5: "''Failed'' \<in> {''Cancelled'', ''Failed'', ''Timeout''}" by simp
  have second_group:
    "map_option (\<lambda>(r, w'). (r, files w', store w')) (main sample_env sample_args empty_world)
       = Some (Raised (RuntimeError (''Consulta q:/aws/lambda/bm-qrec-authorizer termin''
                                      @ [CHR 0xF3] @ '' con estado Failed'')),
               [], [[(''a'', ''1''), (''b'', ''2'')]])"
    by code_simp
  from main_raises_on_terminated_query[OF h1 h2 h3 h4 h5, of empty_world]
  have "\<exists>w'. main ?E sample_args empty_world
          = Some (Raised (RuntimeError (''Consulta q:/aws/lambda/bm-qrec-api-redeban termin''
                                         @ [CHR 0xF3] @ '' con estado Failed'')), w')
        \<and> files w' = []
        \<and> calls w' = [StartQuery ''/aws/lambda/bm-qrec-api-redeban'' 1746706440 1746748800
                        QUERY_STRING,
                      GetQueryResults ''q:/aws/lambda/bm-qrec-api-redeban'']"
    unfolding t1 t2 by (simp add: empty_world_def terminated_message_def LOG_GROUPS_def)
  then show ?thesis using second_group by (rule conjI)
qed

section \<open>Properties of the Persister\<close>

lemma upt_append_add: "[a ..< a + m] @ [a + m ..< a + m + n] = [a ..< a + (m + (n::nat))]"
  using upt_add_eq_append[of a "a + m" n] by (simp add: add.assoc)

lemma upt_Cons_add: "[a ..< a + Suc m] = a # [Suc a ..< Suc a + m]"
  by (simp add: upt_conv_Cons)

lemma copy_rows_eq:
  "list_all (\<lambda>a. a < length h) rs \<Longrightarrow>
   copy_rows lg rs (h, ar) =
     (h @ map (\<lambda>a. dict_set ''log_group'' lg (h ! a)) rs,
      ar @ [length h ..< length h + length rs])"
proof (induction rs arbitrary: h ar)
  case Nil
  then show ?case by simp
next
  case (Cons r rs)
  define h2 where "h2 = h @ [dict_set ''log_group'' lg (h ! r)]"
  have step: "copy_rows lg (r # rs) (h, ar) = copy_rows lg rs (h2, ar @ [length h])"
    by (simp add: Let_def h2_def)
  have ok: "list_all (\<lambda>a. a < length h2) rs"
    using Cons.prems by (auto simp: h2_def list_all_iff)
  have same: "map (\<lambda>a. dict_set ''log_group'' lg (h2 ! a)) rs
            = map (\<lambda>a. dict_set ''log_group'' lg (h ! a)) rs"
    using Cons.prems by (auto simp: h2_def list_all_iff nth_append)
  have upt: "[length h ..< length h + length (r # rs)]
            = length h # [length h2 ..< length h2 + length rs]"
    using upt_Cons_add[of "length h" "length rs"] by (simp add: h2_def)
  show ?case unfolding step Cons.IH[OF ok] same upt by (simp add: h2_def)
qed

lemma copy_rows_prefix: "\<exists>new ar'. copy_rows lg rs (h, ar) = (h @ new, ar')"
proof (induction rs arbitrary: h ar)
  case Nil
  then show ?case by simp
next
  case (Cons r rs)
  define h2 where "h2 = h @ [dict_set ''log_group'' lg (h ! r)]"
  have step: "copy_rows lg (r # rs) (h, ar) = copy_rows lg rs (h2, ar @ [length h])"
    by (simp add: Let_def h2_def)
  from Cons.IH[of h2 "ar @ [length h]"] obtain new ar' where
    "copy_rows lg rs (h2, ar @ [length h]) = (h2 @ new, ar')" by blast
  then show ?case unfolding step by (simp add: h2_def)
qed

lemma collect_rows_prefix: "\<exists>new ar'. collect_rows d (h, ar) = (h @ new, ar')"
proof (induction d arbitrary: h ar)
  case Nil
  then show ?case by simp
next
  case (Cons p d)
  obtain lg rows where p: "p = (lg, rows)" by (cases p)
  obtain new1 ar1 where c: "copy_rows lg rows (h, ar) = (h @ new1, ar1)"
    using copy_rows_prefix by blast
  from Cons.IH[of "h @ new1" ar1] obtain new2 ar2 where
    "collect_rows d (h @ new1, ar1) = ((h @ new1) @ new2, ar2)" by blast
  then show ?case unfolding p by (simp add: c)
qed

lemma collect_rows_eq:
  "refs_ok h d \<Longrightarrow>
   collect_rows d (h, ar) =
     (h @ map (\<lambda>(lg, a). dict_set ''log_group'' lg (h ! a)) (records_of d),
      ar @ [length h ..< length h + length (records_of d)])"
proof (induction d arbitrary: h ar)
  case Nil
  then show ?case by (simp add: records_of_def)
next
  case (Cons p d)
  obtain lg rows where p: "p = (lg, rows)" by (cases p)
  define new1 where "new1 = map (\<lambda>a. dict_set ''log_group'' lg (h ! a)) rows"
  have rows_ok: "list_all (\<lambda>a. a < length h) rows"
    using Cons.prems unfolding p by (auto simp: refs_ok_def records_of_def list_all_iff)
  have d_ok: "list_all (\<lambda>(lg, a). a < length h) (records_of d)"
    using Cons.prems unfolding p by (auto simp: refs_ok_def records_of_def list_all_iff)
  have d_ok': "refs_ok (h @ new1) d"
    using d_ok by (auto simp: refs_ok_def list_all_iff)
  have c: "copy_rows lg rows (h, ar) = (h @ new1, ar @ [length h ..< length h + length rows])"
    unfolding new1_def by (rule copy_rows_eq[OF rows_ok])
  have same: "map (\<lambda>(lg, a). dict_set ''log_group'' lg ((h @ new1) ! a)) (records_of d)
            = map (\<lambda>(lg, a). dict_set ''log_group'' lg (h ! a)) (records_of d)"
    using d_ok by (auto simp: list_all_iff nth_append)
  have recs: "records_of (p # d) = map (Pair lg) rows @ records_of d"
    unfolding p by (simp add: records_of_def)
  have "collect_rows (p # d) (h, ar)
          = collect_rows d (h @ new1, ar @ [length h ..< length h + length rows])"
    unfolding p by (simp add: c)
  also have "\<dots> = ((h @ new1) @ map (\<lambda>(lg, a). dict_set ''log_group'' lg (h ! a)) (records_of d),
      (ar @ [length h ..< length h + length rows])
        @ [length (h @ new1) ..< length (h @ new1) + length (records_of d)])"
    unfolding Cons.IH[OF d_ok'] same ..
  also have "\<dots> = (h @ map (\<lambda>(lg, a). dict_set ''log_group'' lg (h ! a)) (records_of (p # d)),
      ar @ [length h ..< length h + length (records_of (p # d))])"
    unfolding recs by (simp add: new1_def comp_def upt_append_add)
  finally show ?case .
qed


lemma map_nth_appended: "map ((!) (h @ new)) [length h ..< length h + length new] = new"
proof -
  have "map ((!) (h @ new)) [length h ..< length h + length new]
          = map ((!) new) [0 ..< length new]"
    by (rule nth_equalityI) (simp_all add: nth_append)
  then show ?thesis by (simp add: map_nth)
qed

lemma dict_get_dict_set:
  "dict_get (dict_set k v r) k' dflt = (if k' = k then v else dict_get r k' dflt)"
  by (simp add: dict_get_def map_of_dict_set)

lemma keys_with_log_group:
  "set (keys (dict_set ''log_group'' lg r)) = insert ''log_group'' (set (keys r))"
  by (auto simp: keys_dict_set)




text \<open>
  C8: when a dataset with at least one row is persisted to a \<open>.csv\<close> path, the file
  written has a header, which is the sorted list of the set of all field names of all rows
  together with \<open>log_group\<close>, and one record per row of the dataset, in order; the cell
  of a record in a column is the log group of the row in the column \<open>log_group\<close>,
  otherwise the value of the row for that field, and blank when the row has no such field.
\<close>

theorem save_results_csv_header_and_records:
  assumes "lower (path_suffix file_path) = ''.csv''" and "refs_ok (store w) d"
    and "records_of d \<noteq> []"
  shows "\<exists>header recs.
           map_of (files (save_results e d file_path w)) file_path
             = Some (CsvRecords (header # recs))
         \<and> header = sorted_list_of_set
                      (insert ''log_group'' (\<Union>(lg, a) \<in> set (records_of d). set (keys (store w ! a))))
         \<and> length recs = length (records_of d)
         \<and> (\<forall>i < length (records_of d). length (recs ! i) = length header
               \<and> (\<forall>j < length header.
                     recs ! i ! j =
                       (case records_of d ! i of
                          (lg, a) \<Rightarrow>
                            if header ! j = ''log_group'' then lg
                            else (case map_of (store w ! a) (header ! j) of
                                    None \<Rightarrow> [] | Some v \<Rightarrow> v))))"
proof -
  define h where "h = store w"
  define rows where "rows = map (\<lambda>(lg, a). dict_set ''log_group'' lg (h ! a)) (records_of d)"
  define header where "header = fieldnames_of rows"
  define recs where "recs = map (csv_record header) rows"
  have len: "length rows = length (records_of d)" by (simp add: rows_def)
  have c: "collect_rows d (h, []) = (h @ rows, [length h ..< length h + length rows])"
    using collect_rows_eq[OF assms(2), of "[]"] by (simp add: h_def rows_def)
  have ne: "[length h ..< length h + length rows] \<noteq> []" using assms(3) len by simp
  have written: "files (save_results e d file_path w)
               = dict_set file_path (CsvRecords (header # recs)) (files w)"
    using assms(1) ne
    by (simp add: save_results_def h_def[symmetric] c print_def Let_def map_nth_appended
          header_def recs_def)
  have 1: "map_of (files (save_results e d file_path w)) file_path
             = Some (CsvRecords (header # recs))"
    unfolding written by (simp add: map_of_dict_set)
  have keyset: "set (concat (map keys rows))
        = insert ''log_group'' (\<Union>(lg, a) \<in> set (records_of d). set (keys (h ! a)))"
  proof -
    have "set (concat (map keys rows))
        = (\<Union>(lg, a) \<in> set (records_of d). insert ''log_group'' (set (keys (h ! a))))"
      by (auto simp: rows_def keys_with_log_group)
    also have "\<dots> = insert ''log_group'' (\<Union>(lg, a) \<in> set (records_of d). set (keys (h ! a)))"
      using assms(3) by (cases "records_of d") auto
    finally show ?thesis .
  qed
  have 2: "header = sorted_list_of_set
                      (insert ''log_group'' (\<Union>(lg, a) \<in> set (records_of d). set (keys (h ! a))))"
    unfolding header_def fieldnames_of_def keyset ..
  have 3: "length recs = length (records_of d)" by (simp add: recs_def len)
  have 4: "\<forall>i < length (records_of d). length (recs ! i) = length header
               \<and> (\<forall>j < length header.
                     recs ! i ! j =
                       (case records_of d ! i of
                          (lg, a) \<Rightarrow>
                            if header ! j = ''log_group'' then lg
                            else (case map_of (h ! a) (header ! j) of
                                    None \<Rightarrow> [] | Some v \<Rightarrow> v)))"
  proof (intro allI impI conjI)
    fix i assume i: "i < length (records_of d)"
    then show "length (recs ! i) = length header"
      by (simp add: recs_def len csv_record_def)
    fix j assume j: "j < length header"
    obtain lg a where r: "records_of d ! i = (lg, a)" by (cases "records_of d ! i")
    have "rows ! i = dict_set ''log_group'' lg (h ! a)" using i r by (simp add: rows_def)
    then have "recs ! i ! j = dict_get (dict_set ''log_group'' lg (h ! a)) (header ! j) []"
      using i j by (simp add: recs_def len csv_record_def)
    also have "\<dots> = (if header ! j = ''log_group'' then lg else dict_get (h ! a) (header ! j) [])"
      by (rule dict_get_dict_set)
    finally show "recs ! i ! j =
                       (case records_of d ! i of
                          (lg, a) \<Rightarrow>
                            if header ! j = ''log_group'' then lg
                            else (case map_of (h ! a) (header ! j) of
                                    None \<Rightarrow> [] | Some v \<Rightarrow> v))"
      by (simp add: r dict_get_def)
  qed
  show ?thesis using 1 2 3 4 unfolding h_def by blast
qed

theorem save_results_csv_header_and_records_witness:
  "lower (path_suffix ''out.csv'') = ''.csv''
   \<and> refs_ok (store sample_world) sample_dataset
   \<and> records_of sample_dataset \<noteq> []
   \<and> map_of (files (save_results sample_env sample_dataset ''out.csv'' sample_world)) ''out.csv''
       = Some (CsvRecords [[''log_group'', ''x'', ''y''], [''A'', ''1'', ''''], [''B'', '''', ''2'']])"
proof -
  have h1: "lower (path_suffix ''out.csv'') = ''.csv''" by code_simp
  have h2: "refs_ok (store sample_world) sample_dataset" by code_simp
  have h3: "records_of sample_dataset \<noteq> []" by code_simp
  have ev: "map_of (files (save_results sample_env sample_dataset ''out.csv'' sample_world)) ''out.csv''
       = Some (CsvRecords [[''log_group'', ''x'', ''y''], [''A'', ''1'', ''''], [''B'', '''', ''2'']])"
    by code_simp
  from save_results_csv_header_and_records[OF h1 h2 h3, of sample_env]
  obtain header recs where
    "map_of (files (save_results sample_env sample_dataset ''out.csv'' sample_world)) ''out.csv''
       = Some (CsvRecords (header # recs))" by blast
  with ev have "header = [''log_group'', ''x'', ''y'']" by simp
  then show ?thesis using h1 h2 h3 ev by simp
qed



text \<open>
  C10: persisting to a \<open>.csv\<close> path leaves every row dict of the store as it was: the
  \<open>log_group\<close> entries are set in copies, which are new dicts after the old ones.
\<close>

theorem save_results_csv_keeps_input_rows:
  assumes "lower (path_suffix file_path) = ''.csv''"
  shows "take (length (store w)) (store (save_results e d file_path w)) = store w"
proof -
  obtain new ar' where c: "collect_rows d (store w, []) = (store w @ new, ar')"
    using collect_rows_prefix by blast
  have "store (save_results e d file_path w) = store w @ new"
    using assms by (simp add: save_results_def c print_def Let_def)
  then show ?thesis by simp
qed

theorem save_results_csv_keeps_input_rows_witness:
  "lower (path_suffix ''out.csv'') = ''.csv''
   \<and> store (save_results sample_env sample_dataset ''out.csv'' sample_world)
       = [[(''x'', ''1'')], [(''y'', ''2'')],
          [(''x'', ''1''), (''log_group'', ''A'')], [(''y'', ''2''), (''log_group'', ''B'')]]
   \<and> take (length (store sample_world))
         (store (save_results sample_env sample_dataset ''out.csv'' sample_world))
       = store sample_world"
proof -
  have h1: "lower (path_suffix ''out.csv'') = ''.csv''" by code_simp
  have ev: "store (save_results sample_env sample_dataset ''out.csv'' sample_world)
       = [[(''x'', ''1'')], [(''y'', ''2'')],
          [(''x'', ''1''), (''log_group'', ''A'')], [(''y'', ''2''), (''log_group'', ''B'')]]"
    by code_simp
  from save_results_csv_keeps_input_rows[OF h1, of sample_world sample_env sample_dataset]
  show ?thesis using h1 ev by simp
qed

end
